theory Spec2Isabelle
  imports Main
begin

section \<open>JavaScript values the client code relies on\<close>

text \<open>
  The client is TypeScript running in a browser. Three pieces of JavaScript semantics are
  used by the code under study and are written out here:
  \<^item> truthiness of a value of type \<open>string | undefined\<close> (or \<open>string | null\<close>):
    \<open>undefined\<close>, \<open>null\<close> and the empty string are falsy, every other string is truthy;
  \<^item> \<open>String.prototype.startsWith\<close> and \<open>slice(1)\<close>;
  \<^item> the decimal rendering of a non-negative integer inside a template literal.
\<close>

definition truthy :: "string option \<Rightarrow> bool" where
  "truthy v = (case v of None \<Rightarrow> False | Some s \<Rightarrow> s \<noteq> [])"

definition startsWith :: "string \<Rightarrow> string \<Rightarrow> bool" where
  "startsWith s p = (take (length p) s = p)"

definition slice :: "nat \<Rightarrow> string \<Rightarrow> string" where
  "slice n s = drop n s"

definition digit :: "nat \<Rightarrow> char" where
  "digit d = ''0123456789'' ! d"

fun toString :: "nat \<Rightarrow> string" where
  "toString n = (if n < 10 then [digit n] else toString (n div 10) @ [digit (n mod 10)])"

declare toString.simps [simp del]

section \<open>ApiGateway: \<open>lib/api\<close>\<close>

text \<open>
  \<open>import.meta.env.VITE_API_BASE_URL\<close> is a build-time setting: either absent
  (\<open>undefined\<close>) or a string. It is the parameter \<open>env\<close> of everything below.
  \<open>getApiBaseUrl\<close> is \<open>env || "http://localhost:8000"\<close>, so an empty setting falls back too.
\<close>

definition getApiBaseUrl :: "string option \<Rightarrow> string" where
  "getApiBaseUrl env =
     (case env of
        None \<Rightarrow> ''http://localhost:8000''
      | Some u \<Rightarrow> if u = [] then ''http://localhost:8000'' else u)"

definition createApiUrl :: "string option \<Rightarrow> string \<Rightarrow> string" where
  "createApiUrl env endpoint =
     (let baseUrl = getApiBaseUrl env;
          cleanEndpoint = (if startsWith endpoint ''/'' then slice 1 endpoint else endpoint)
      in baseUrl @ ''/'' @ cleanEndpoint)"

text \<open>
  The reading of ``exactly one slash between base and endpoint'' used to judge
  \<open>createApiUrl\<close>: the base without its trailing slashes, one slash, the endpoint without
  its leading slashes. This definition follows the specification's words, not the code.
\<close>

definition is_slash :: "char \<Rightarrow> bool" where
  "is_slash c = (c = CHR ''/'')"

definition spec_join_one_slash :: "string \<Rightarrow> string \<Rightarrow> string" where
  "spec_join_one_slash base endpoint =
     rev (dropWhile is_slash (rev base)) @ ''/'' @ dropWhile is_slash endpoint"

section \<open>Wire types and the outcome of a \<open>fetch\<close>\<close>

text \<open>
  The interfaces of \<open>DreamView.tsx\<close>. \<open>ConceptResponse\<close> is imported from
  \<open>types/concept\<close>; its fields are the ones of the wire format
  \<open>{ id, content, parent1_id?, parent2_id? }\<close>. Field names carry a prefix where two
  interfaces share a name.
\<close>

record Dream =
  dream_id :: string
  dream_created_at :: string

record ConceptResponse =
  concept_id :: string
  content :: string
  parent1_id :: "string option"
  parent2_id :: "string option"

record DreamGetResponse =
  get_dream :: Dream
  get_concepts :: "ConceptResponse list"

record DreamContinueResponse =
  success :: bool

text \<open>
  A value caught by \<open>catch (err)\<close> is either an \<open>Error\<close> object with its message or some
  other value. A \<open>fetch\<close> promise either rejects with such a value or fulfils with a
  response; \<open>response.json()\<close> in turn either throws or yields the parsed body.
  \<open>response.ok\<close> is true exactly for a status in the range 200 to 299.
\<close>

datatype thrown = Error string | NotAnError

datatype 'a Response = Response (status: nat) (statusText: string) (json: "thrown + 'a")

datatype 'a settled = Rejected thrown | Fulfilled "'a Response"

definition ok :: "'a Response \<Rightarrow> bool" where
  "ok response = (200 \<le> status response \<and> status response \<le> 299)"

definition message_or :: "thrown \<Rightarrow> string \<Rightarrow> string" where
  \<comment> \<open>\<open>err instanceof Error ? err.message : fallback\<close>\<close>
  "message_or err fallback = (case err of Error m \<Rightarrow> m | NotAnError \<Rightarrow> fallback)"

section \<open>DreamSession: \<open>DreamView.tsx\<close>\<close>

text \<open>
  The component's state is the tuple of its \<open>useState\<close> cells together with the route
  parameter \<open>dreamId\<close>. (The \<open>copied\<close> cell of the share link is independent of everything
  below and left out.) An \<open>async\<close> function is split at its \<open>await\<close>: the part before
  issues the request and records what is waiting for it; the part after runs when the
  request settles. A session is the component state, the requests in flight, and the log of
  every request sent.
\<close>

record DreamView =
  dreamId :: "string option"
  isLoading :: bool
  isContinuing :: bool
  dream :: "Dream option"
  concepts :: "ConceptResponse list"
  error :: "string option"

datatype verb = GET | POST

datatype awaiting =
    AwaitLoad bool \<comment> \<open>\<open>loadDream\<close> waits; the flag says that \<open>continueDream\<close> awaits it in turn\<close>
  | AwaitContinue string \<comment> \<open>\<open>continueDream\<close> waits, with the \<open>dreamId\<close> of its closure\<close>

record session =
  view :: DreamView
  inflight :: "(string \<times> awaiting) list"
  sent :: "(verb \<times> string) list"

definition finally_continueDream :: "session \<Rightarrow> session" where
  "finally_continueDream w = w\<lparr>view := (view w)\<lparr>isContinuing := False\<rparr>\<rparr>"

definition return_to :: "bool \<Rightarrow> session \<Rightarrow> session" where
  \<comment> \<open>when \<open>continueDream\<close> awaited this \<open>loadDream\<close>, its \<open>finally\<close> block runs next\<close>
  "return_to awaited w = (if awaited then finally_continueDream w else w)"

definition loadDream :: "string option \<Rightarrow> string option \<Rightarrow> bool \<Rightarrow> session \<Rightarrow> session" where
  "loadDream env d awaited w =
     (if \<not> truthy d then
        return_to awaited
          (w\<lparr>view := (view w)\<lparr>error := Some ''No dream ID provided'', isLoading := False\<rparr>\<rparr>)
      else
        (let url = createApiUrl env (''v1/dream/'' @ the d)
         in w\<lparr>view := (view w)\<lparr>isLoading := True, error := None\<rparr>,
               inflight := inflight w @ [(url, AwaitLoad awaited)],
               sent := sent w @ [(GET, url)]\<rparr>))"

definition loadDream_try :: "DreamGetResponse settled \<Rightarrow> thrown + DreamGetResponse" where
  "loadDream_try res =
     (case res of
        Rejected err \<Rightarrow> Inl err
      | Fulfilled response \<Rightarrow>
          if \<not> ok response then
            (if status response = 404 then Inl (Error ''Dream not found'')
             else Inl (Error (''Failed to load dream: '' @ statusText response)))
          else json response)"

definition loadDream_settle :: "DreamGetResponse settled \<Rightarrow> bool \<Rightarrow> session \<Rightarrow> session" where
  "loadDream_settle res awaited w =
     return_to awaited
       (case loadDream_try res of
          Inr data \<Rightarrow>
            w\<lparr>view := (view w)\<lparr>dream := Some (get_dream data), concepts := get_concepts data,
                                  isLoading := False\<rparr>\<rparr>
        | Inl err \<Rightarrow>
            w\<lparr>view := (view w)\<lparr>error := Some (message_or err ''Failed to load dream''),
                                  isLoading := False\<rparr>\<rparr>)"

definition continueDream :: "string option \<Rightarrow> session \<Rightarrow> session" where
  "continueDream env w =
     (if \<not> truthy (dreamId (view w)) then
        w\<lparr>view := (view w)\<lparr>error := Some ''No dream ID available''\<rparr>\<rparr>
      else
        (let d = the (dreamId (view w));
             url = createApiUrl env (''v1/dream/'' @ d @ ''/continue'')
         in w\<lparr>view := (view w)\<lparr>isContinuing := True, error := None\<rparr>,
               inflight := inflight w @ [(url, AwaitContinue d)],
               sent := sent w @ [(POST, url)]\<rparr>))"

datatype proceed = Reload

definition continueDream_try :: "DreamContinueResponse settled \<Rightarrow> thrown + proceed" where
  "continueDream_try res =
     (case res of
        Rejected err \<Rightarrow> Inl err
      | Fulfilled response \<Rightarrow>
          if \<not> ok response then
            Inl (Error (''Failed to continue dream: '' @ statusText response))
          else
            (case json response of
               Inl err \<Rightarrow> Inl err
             | Inr data \<Rightarrow>
                 if success data then Inr Reload
                 else Inl (Error ''Dream continuation was not successful'')))"

definition continueDream_settle ::
  "string option \<Rightarrow> DreamContinueResponse settled \<Rightarrow> string \<Rightarrow> session \<Rightarrow> session" where
  "continueDream_settle env res d w =
     (case continueDream_try res of
        Inr Reload \<Rightarrow> loadDream env (Some d) True w
      | Inl err \<Rightarrow>
          finally_continueDream
            (w\<lparr>view := (view w)\<lparr>error := Some (message_or err ''Failed to continue dream'')\<rparr>\<rparr>))"

text \<open>
  What the component renders, in the order of its early returns. The error card always
  carries the ``Try Again'' button; the dream page carries the ``Keep Dreaming'' button only
  from two concepts on, disabled while a continuation runs.
\<close>

datatype button = Button (disabled: bool)

datatype screen =
    LoadingCard
  | ErrorCard string
  | NotFoundCard
  | DreamPage (notice: bool) (continueButton: "button option") (cards: "ConceptResponse list")

definition render :: "DreamView \<Rightarrow> screen" where
  "render v =
     (if isLoading v then LoadingCard
      else if truthy (error v) then ErrorCard (the (error v))
      else if dream v = None then NotFoundCard
      else DreamPage (length (concepts v) < 2)
             (if length (concepts v) \<ge> 2 then Some (Button (isContinuing v)) else None)
             (concepts v))"

definition hasTryAgain :: "screen \<Rightarrow> bool" where
  "hasTryAgain scr = (case scr of ErrorCard _ \<Rightarrow> True | _ \<Rightarrow> False)"

definition canContinue :: "screen \<Rightarrow> bool" where
  \<comment> \<open>the button is on the page and a click on it reaches \<open>onClick\<close>\<close>
  "canContinue scr =
     (case scr of
        DreamPage _ (Some b) _ \<Rightarrow> \<not> disabled b
      | _ \<Rightarrow> False)"

text \<open>
  The events of a session: the two clicks, a change of the route parameter (the same
  component instance serves every \<open>/dream/:dreamId\<close>), and the settling of the \<open>i\<close>-th
  request in flight. A click on a control that is not rendered, or on a disabled button,
  reaches no handler. An event is handled, and the component rendered again, before the
  next event arrives, so the closures of a handler hold the current \<open>dreamId\<close>.
\<close>

datatype event =
    ClickContinue
  | ClickTryAgain
  | RouteChange "string option"
  | LoadSettles nat "DreamGetResponse settled"
  | ContinueSettles nat "DreamContinueResponse settled"

definition remove_nth :: "nat \<Rightarrow> 'a list \<Rightarrow> 'a list" where
  "remove_nth i xs = take i xs @ drop (Suc i) xs"

definition useEffect_dreamId :: "string option \<Rightarrow> session \<Rightarrow> session" where
  "useEffect_dreamId env w =
     (if truthy (dreamId (view w)) then loadDream env (dreamId (view w)) False w else w)"

definition initial :: "string option \<Rightarrow> session" where
  \<comment> \<open>the \<open>useState\<close> defaults, before any effect has run\<close>
  "initial d =
     \<lparr>view = \<lparr>dreamId = d, isLoading = True, isContinuing = False, dream = None,
              concepts = [], error = None\<rparr>,
      inflight = [], sent = []\<rparr>"

definition mount :: "string option \<Rightarrow> string option \<Rightarrow> session" where
  "mount env d = useEffect_dreamId env (initial d)"

fun step :: "string option \<Rightarrow> event \<Rightarrow> session \<Rightarrow> session" where
  "step env ClickContinue w =
     (if canContinue (render (view w)) then continueDream env w else w)"
| "step env ClickTryAgain w =
     (if hasTryAgain (render (view w)) then loadDream env (dreamId (view w)) False w else w)"
| "step env (RouteChange d) w =
     (if d = dreamId (view w) then w
      else useEffect_dreamId env (w\<lparr>view := (view w)\<lparr>dreamId := d\<rparr>\<rparr>))"
| "step env (LoadSettles i res) w =
     (if i < length (inflight w) then
        (case snd (inflight w ! i) of
           AwaitLoad awaited \<Rightarrow>
             loadDream_settle res awaited (w\<lparr>inflight := remove_nth i (inflight w)\<rparr>)
         | AwaitContinue d \<Rightarrow> w)
      else w)"
| "step env (ContinueSettles i res) w =
     (if i < length (inflight w) then
        (case snd (inflight w ! i) of
           AwaitContinue d \<Rightarrow>
             continueDream_settle env res d (w\<lparr>inflight := remove_nth i (inflight w)\<rparr>)
         | AwaitLoad awaited \<Rightarrow> w)
      else w)"

fun run :: "string option \<Rightarrow> event list \<Rightarrow> session \<Rightarrow> session" where
  "run env [] w = w"
| "run env (e # es) w = run env es (step env e w)"

section \<open>DreamBrowser: \<open>FindDreamsDropdown.tsx\<close>\<close>

record DreamSummary =
  summary_id :: string
  summary_created_at :: string
  label :: string

record DreamListResponse =
  list_dreams :: "DreamSummary list"
  has_more :: bool
  total_count :: nat

text \<open>
  The component state (its \<open>error\<close> cell is called \<open>listError\<close> here, the name \<open>error\<close>
  being taken by the session's), a page request with the arguments \<open>fetchDreams\<close> was
  called with, and the browser: component state, requests in flight, log of requests sent.
\<close>

record FindDreamsDropdown =
  dreams :: "DreamSummary list"
  loading :: bool
  hasMore :: bool
  listError :: "string option"
  isDropdownOpen :: bool

definition ITEMS_PER_PAGE :: nat where
  "ITEMS_PER_PAGE = 20"

datatype page_fetch = PageFetch (url: string) (offset: nat) (limit: nat) (reset: bool)

record browser =
  dropdown :: FindDreamsDropdown
  fetching :: "page_fetch list"
  fetched :: "page_fetch list"

definition fetchDreams :: "nat \<Rightarrow> bool \<Rightarrow> browser \<Rightarrow> browser" where
  "fetchDreams off rst b =
     (if loading (dropdown b) then b
      else
        (let rq = PageFetch
                    (''http://localhost:8000/v1/dream/list?offset='' @ toString off
                       @ ''&limit='' @ toString ITEMS_PER_PAGE)
                    off ITEMS_PER_PAGE rst
         in b\<lparr>dropdown := (dropdown b)\<lparr>loading := True, listError := None\<rparr>,
               fetching := fetching b @ [rq],
               fetched := fetched b @ [rq]\<rparr>))"

definition fetchDreams_try :: "DreamListResponse settled \<Rightarrow> thrown + DreamListResponse" where
  "fetchDreams_try res =
     (case res of
        Rejected err \<Rightarrow> Inl err
      | Fulfilled response \<Rightarrow>
          if \<not> ok response then
            Inl (Error (''Failed to fetch dreams: '' @ statusText response))
          else json response)"

definition fetchDreams_settle :: "DreamListResponse settled \<Rightarrow> bool \<Rightarrow> browser \<Rightarrow> browser" where
  "fetchDreams_settle res rst b =
     (case fetchDreams_try res of
        Inr data \<Rightarrow>
          b\<lparr>dropdown := (dropdown b)
              \<lparr>dreams := (if rst then list_dreams data
                           else dreams (dropdown b) @ list_dreams data),
               hasMore := has_more data,
               loading := False\<rparr>\<rparr>
      | Inl err \<Rightarrow>
          b\<lparr>dropdown := (dropdown b)
              \<lparr>listError := Some (message_or err ''Failed to load dreams''),
               loading := False\<rparr>\<rparr>)"

text \<open>
  The effect that loads the first page. Its dependencies are \<open>isDropdownOpen\<close>,
  \<open>dreams.length\<close> and \<open>fetchDreams\<close>, and \<open>fetchDreams\<close> is a new function exactly when
  \<open>loading\<close> has changed; the effect runs after a render in which one of them differs from
  the render before. When the effect itself has started a request, the run after the next
  render finds \<open>loading\<close> set and \<open>fetchDreams\<close> returns at once, so a single run is
  modelled. Every handler sees the state of the latest render: an event is handled, and
  the component rendered again, before the next event arrives.
\<close>

definition useEffect_open :: "browser \<Rightarrow> browser" where
  "useEffect_open b =
     (if isDropdownOpen (dropdown b) \<and> length (dreams (dropdown b)) = 0
      then fetchDreams 0 True b else b)"

definition deps_changed :: "FindDreamsDropdown \<Rightarrow> FindDreamsDropdown \<Rightarrow> bool" where
  "deps_changed old new =
     (isDropdownOpen old \<noteq> isDropdownOpen new
      \<or> length (dreams old) \<noteq> length (dreams new)
      \<or> loading old \<noteq> loading new)"

definition after_render :: "FindDreamsDropdown \<Rightarrow> browser \<Rightarrow> browser" where
  "after_render old b = (if deps_changed old (dropdown b) then useEffect_open b else b)"

definition observer_callback :: "bool \<Rightarrow> browser \<Rightarrow> browser" where
  "observer_callback isIntersecting b =
     (if isIntersecting \<and> hasMore (dropdown b) \<and> \<not> loading (dropdown b)
      then fetchDreams (length (dreams (dropdown b))) False b else b)"

text \<open>
  The parts of the dropdown's content that matter for paging: the sentinel element the
  observer watches and the ``All dreams loaded'' terminator. The content is on the page
  only while the dropdown is open.
\<close>

definition sentinel_rendered :: "FindDreamsDropdown \<Rightarrow> bool" where
  "sentinel_rendered d =
     (isDropdownOpen d \<and> hasMore d \<and> \<not> loading d \<and> length (dreams d) > 0)"

definition all_loaded_rendered :: "FindDreamsDropdown \<Rightarrow> bool" where
  "all_loaded_rendered d = (isDropdownOpen d \<and> \<not> hasMore d \<and> length (dreams d) > 0)"

text \<open>
  The sentinel event is accepted whenever the sentinel is on the page. In the browser the
  observer watches the element that was on the page when its effect last ran, and that
  effect does not depend on \<open>isDropdownOpen\<close>; after the dropdown has been closed and opened
  again the new sentinel is watched only once \<open>dreams.length\<close>, \<open>hasMore\<close> or \<open>loading\<close> has
  changed. The events below therefore include every trigger of the code, and after a
  reopening possibly more.
\<close>

datatype browser_event =
    OpenChange bool
  | SentinelIntersects bool
  | SelectDream string
  | PageSettles nat "DreamListResponse settled"

definition browser_init :: browser where
  "browser_init =
     \<lparr>dropdown = \<lparr>dreams = [], loading = False, hasMore = True, listError = None,
                   isDropdownOpen = False\<rparr>,
      fetching = [], fetched = []\<rparr>"

fun browser_step :: "browser_event \<Rightarrow> browser \<Rightarrow> browser" where
  "browser_step (OpenChange v) b =
     after_render (dropdown b) (b\<lparr>dropdown := (dropdown b)\<lparr>isDropdownOpen := v\<rparr>\<rparr>)"
| "browser_step (SentinelIntersects x) b =
     (if sentinel_rendered (dropdown b)
      then after_render (dropdown b) (observer_callback x b) else b)"
| "browser_step (SelectDream i) b =
     (if isDropdownOpen (dropdown b) \<and> i \<in> set (map summary_id (dreams (dropdown b)))
      then after_render (dropdown b) (b\<lparr>dropdown := (dropdown b)\<lparr>isDropdownOpen := False\<rparr>\<rparr>)
      else b)"
| "browser_step (PageSettles i res) b =
     (if i < length (fetching b) then
        after_render (dropdown b)
          (fetchDreams_settle res (reset (fetching b ! i))
             (b\<lparr>fetching := remove_nth i (fetching b)\<rparr>))
      else b)"

fun browser_run :: "browser_event list \<Rightarrow> browser \<Rightarrow> browser" where
  "browser_run [] b = b"
| "browser_run (e # es) b = browser_run es (browser_step e b)"

text \<open>
  Modelled from the spec: the backend's \<open>GET /v1/dream/list?offset=&limit=\<close> endpoint, which
  is not part of the client sources. It pages through the server's list by offset and says
  whether items remain past the page.
\<close>

definition list_endpoint :: "DreamSummary list \<Rightarrow> nat \<Rightarrow> nat \<Rightarrow> DreamListResponse" where
  "list_endpoint stored off lim =
     \<lparr>list_dreams = take lim (drop off stored),
      has_more = (off + lim < length stored),
      total_count = length stored\<rparr>"

definition backend_answers :: "DreamSummary list \<Rightarrow> browser \<Rightarrow> browser" where
  \<comment> \<open>the oldest request in flight is answered by the backend, with success\<close>
  "backend_answers stored b =
     (case fetching b of
        [] \<Rightarrow> b
      | rq # _ \<Rightarrow>
          browser_step
            (PageSettles 0
               (Fulfilled (Response 200 ''OK'' (Inr (list_endpoint stored (offset rq) (limit rq))))))
            b)"

section \<open>Vocabulary of the specification\<close>

text \<open>
  A continuation fails on a network error, a non-success status, a body that cannot be
  parsed, or a body whose \<open>success\<close> is false. A load succeeds on a success status with a
  parsed body.
\<close>

definition continue_fails :: "DreamContinueResponse settled \<Rightarrow> bool" where
  "continue_fails res =
     (case res of
        Rejected err \<Rightarrow> True
      | Fulfilled response \<Rightarrow>
          \<not> ok response \<or> (case json response of Inl err \<Rightarrow> True | Inr data \<Rightarrow> \<not> success data))"

definition load_succeeds :: "DreamGetResponse settled \<Rightarrow> bool" where
  "load_succeeds res =
     (case res of
        Rejected err \<Rightarrow> False
      | Fulfilled response \<Rightarrow>
          ok response \<and> (case json response of Inl err \<Rightarrow> False | Inr data \<Rightarrow> True))"

text \<open>
  The two error conditions of a session, read off the screen: the error card with the
  not-found text is NotFound, the error card with any other text is TransportFailure.
\<close>

datatype condition = NotFound | TransportFailure

definition surfaced :: "DreamView \<Rightarrow> condition option" where
  "surfaced v =
     (case render v of
        ErrorCard m \<Rightarrow> Some (if m = ''Dream not found'' then NotFound else TransportFailure)
      | _ \<Rightarrow> None)"

text \<open>
  The requests in flight that belong to a running \<open>continueDream\<close>: its POST, or the reload
  it awaits afterwards.
\<close>

definition continuing :: "(string \<times> awaiting) \<Rightarrow> bool" where
  "continuing p = (case snd p of AwaitContinue d \<Rightarrow> True | AwaitLoad awaited \<Rightarrow> awaited)"

definition is_post :: "(string \<times> awaiting) \<Rightarrow> bool" where
  "is_post p = (case snd p of AwaitContinue d \<Rightarrow> True | AwaitLoad awaited \<Rightarrow> False)"

text \<open>
  The guards of the two components as predicates on their states: at most one request of
  a running continuation is in flight, and then \<open>isContinuing\<close> is set; at most one page
  request is in flight, and then \<open>loading\<close> is set and a request that replaces the list was
  issued on an empty list.
\<close>

definition guarded :: "session \<Rightarrow> bool" where
  "guarded w =
     (length (filter continuing (inflight w)) \<le> 1
      \<and> (filter continuing (inflight w) \<noteq> [] \<longrightarrow> isContinuing (view w)))"

definition single_flight :: "browser \<Rightarrow> bool" where
  "single_flight b =
     (case fetching b of
        [] \<Rightarrow> True
      | [rq] \<Rightarrow> loading (dropdown b) \<and> (reset rq \<longrightarrow> dreams (dropdown b) = [])
      | _ \<Rightarrow> False)"

text \<open>
  A session whose route parameter never changes has at most one request of any kind in
  flight: a load shows the loading card, and a continuation has disabled its button and
  cleared the error, so no control that starts a request is on the page.
\<close>

fun is_route :: "event \<Rightarrow> bool" where
  "is_route (RouteChange d) = True"
| "is_route e = False"

definition one_request :: "session \<Rightarrow> bool" where
  "one_request w =
     (case inflight w of
        [] \<Rightarrow> True
      | [p] \<Rightarrow>
          (case snd p of
             AwaitLoad awaited \<Rightarrow> isLoading (view w)
           | AwaitContinue d \<Rightarrow> isContinuing (view w) \<and> error (view w) = None)
      | _ \<Rightarrow> False)"

text \<open>
  The scenario of the paging property: the dropdown is opened and the backend answers, then
  twice the sentinel comes into view and the backend answers.
\<close>

definition after_open :: "DreamSummary list \<Rightarrow> browser" where
  "after_open stored = backend_answers stored (browser_step (OpenChange True) browser_init)"

definition after_first_scroll :: "DreamSummary list \<Rightarrow> browser" where
  "after_first_scroll stored =
     backend_answers stored (browser_step (SentinelIntersects True) (after_open stored))"

definition after_second_scroll :: "DreamSummary list \<Rightarrow> browser" where
  "after_second_scroll stored =
     backend_answers stored (browser_step (SentinelIntersects True) (after_first_scroll stored))"

definition page_url :: "nat \<Rightarrow> string" where
  "page_url off = ''http://localhost:8000/v1/dream/list?offset='' @ toString off @ ''&limit=20''"

text \<open>
  For the loading flag: the events that settle a load, and the fact that a pending
  continuation was started with a dream id (its closure's \<open>dreamId\<close> is not empty).
\<close>

fun settles_load :: "event \<Rightarrow> bool" where
  "settles_load (LoadSettles i res) = True"
| "settles_load e = False"

definition ids_present :: "session \<Rightarrow> bool" where
  "ids_present w =
     list_all (\<lambda>p. case snd p of AwaitContinue d \<Rightarrow> d \<noteq> [] | AwaitLoad awaited \<Rightarrow> True)
       (inflight w)"

section \<open>Concrete sessions and lists\<close>

definition example_dream :: DreamGetResponse where
  "example_dream =
     \<lparr>get_dream = \<lparr>dream_id = ''d1'', dream_created_at = ''2025-01-01T00:00:00Z''\<rparr>,
      get_concepts =
        [\<lparr>concept_id = ''c1'', content = ''tide'', parent1_id = None, parent2_id = None\<rparr>,
         \<lparr>concept_id = ''c2'', content = ''clock'', parent1_id = None, parent2_id = None\<rparr>]\<rparr>"

definition dream_found :: "DreamGetResponse settled" where
  "dream_found = Fulfilled (Response 200 ''OK'' (Inr example_dream))"

definition dream_missing :: "DreamGetResponse settled" where
  "dream_missing = Fulfilled (Response 404 ''Not Found'' (Inl NotAnError))"

definition server_error :: "'a settled" where
  "server_error = Fulfilled (Response 500 ''Internal Server Error'' (Inl NotAnError))"

definition example_loaded :: session where
  "example_loaded = run None [LoadSettles 0 dream_found] (mount None (Some ''d1''))"

definition example_seed_only :: session where
  "example_seed_only =
     run None
       [LoadSettles 0 (Fulfilled (Response 200 ''OK''
          (Inr (example_dream\<lparr>get_concepts := take 1 (get_concepts example_dream)\<rparr>))))]
       (mount None (Some ''d1''))"

definition example_continuing :: "event list" where
  "example_continuing = [LoadSettles 0 dream_found, ClickContinue]"

definition reload_fails :: "event list" where
  "reload_fails =
     [LoadSettles 0 dream_found,
      ClickContinue,
      ContinueSettles 0 (Fulfilled (Response 200 ''OK'' (Inr \<lparr>success = True\<rparr>))),
      LoadSettles 0 server_error]"

definition example_summaries :: "DreamSummary list" where
  "example_summaries =
     map (\<lambda>n. \<lparr>summary_id = toString n, summary_created_at = ''2025-01-01T00:00:00Z'',
               label = ''dream''\<rparr>) [0..<45]"

section \<open>Evaluation and helper lemmas\<close>

lemmas session_defs =
  mount_def initial_def useEffect_dreamId_def loadDream_def loadDream_settle_def
  loadDream_try_def continueDream_def continueDream_settle_def continueDream_try_def
  finally_continueDream_def return_to_def truthy_def ok_def message_or_def remove_nth_def
  createApiUrl_def getApiBaseUrl_def startsWith_def slice_def Let_def
  canContinue_def hasTryAgain_def render_def
  dream_found_def dream_missing_def server_error_def

lemmas browser_defs =
  browser_init_def after_render_def deps_changed_def useEffect_open_def fetchDreams_def
  fetchDreams_settle_def fetchDreams_try_def observer_callback_def sentinel_rendered_def
  all_loaded_rendered_def backend_answers_def list_endpoint_def ITEMS_PER_PAGE_def
  remove_nth_def ok_def Let_def

lemma toString_pages [simp]: "toString 0 = ''0''" "toString 20 = ''20''" "toString 40 = ''40''"
  by code_simp+

lemma createApiUrl_unfold:
  "createApiUrl env endpoint =
     getApiBaseUrl env @ ''/'' @ (case endpoint of [] \<Rightarrow> [] | c # cs \<Rightarrow> if c = CHR ''/'' then cs else c # cs)"
  by (cases endpoint) (simp_all add: createApiUrl_def startsWith_def slice_def Let_def)

lemma dropWhile_slash_base:
  "base \<noteq> [] \<Longrightarrow> last base \<noteq> CHR ''/'' \<Longrightarrow> rev (dropWhile is_slash (rev base)) = base"
  by (cases base rule: rev_cases) (simp_all add: is_slash_def)

lemma canContinue_iff:
  "canContinue (render v) \<longleftrightarrow>
     \<not> isLoading v \<and> \<not> truthy (error v) \<and> dream v \<noteq> None \<and> 2 \<le> length (concepts v)
     \<and> \<not> isContinuing v"
  by (auto simp: canContinue_def render_def)

lemma continueDream_try_fails:
  "continue_fails res \<Longrightarrow> \<exists>err. continueDream_try res = Inl err"
  by (auto simp: continue_fails_def continueDream_try_def split: settled.splits sum.splits)

lemma remove_nth_last [simp]: "remove_nth (length xs) (xs @ [x]) = xs"
  by (simp add: remove_nth_def)

lemma example_loaded_eq:
  "example_loaded =
     \<lparr>view = \<lparr>dreamId = Some ''d1'', isLoading = False, isContinuing = False,
              dream = Some (get_dream example_dream), concepts = get_concepts example_dream,
              error = None\<rparr>,
      inflight = [], sent = [(GET, ''http://localhost:8000/v1/dream/d1'')]\<rparr>"
  by (simp add: example_loaded_def session_defs)

lemma example_seed_only_eq:
  "example_seed_only =
     \<lparr>view = \<lparr>dreamId = Some ''d1'', isLoading = False, isContinuing = False,
              dream = Some (get_dream example_dream),
              concepts = take 1 (get_concepts example_dream),
              error = None\<rparr>,
      inflight = [], sent = [(GET, ''http://localhost:8000/v1/dream/d1'')]\<rparr>"
  by (simp add: example_seed_only_def session_defs)

lemma loadDream_settle_view:
  "view (loadDream_settle res awaited w) =
     (case loadDream_try res of
        Inr data \<Rightarrow> (view w)\<lparr>dream := Some (get_dream data), concepts := get_concepts data,
                          isLoading := False,
                          isContinuing := (if awaited then False else isContinuing (view w))\<rparr>
      | Inl err \<Rightarrow> (view w)\<lparr>error := Some (message_or err ''Failed to load dream''),
                         isLoading := False,
                         isContinuing := (if awaited then False else isContinuing (view w))\<rparr>)"
  by (simp add: loadDream_settle_def return_to_def finally_continueDream_def split: sum.splits)

lemma step_LoadSettles_view:
  "i < length (inflight w) \<Longrightarrow> snd (inflight w ! i) = AwaitLoad awaited \<Longrightarrow>
   view (step env (LoadSettles i res) w) =
     (case loadDream_try res of
        Inr data \<Rightarrow> (view w)\<lparr>dream := Some (get_dream data), concepts := get_concepts data,
                          isLoading := False,
                          isContinuing := (if awaited then False else isContinuing (view w))\<rparr>
      | Inl err \<Rightarrow> (view w)\<lparr>error := Some (message_or err ''Failed to load dream''),
                         isLoading := False,
                         isContinuing := (if awaited then False else isContinuing (view w))\<rparr>)"
  by (cases "loadDream_try res") (simp_all add: loadDream_settle_view)

section \<open>Properties of the ApiGateway\<close>

text \<open>
  Claim C7, as amended. For a base URL that does not end in a slash and an endpoint that
  starts with at most one slash, \<open>createApiUrl\<close> yields the base, exactly one slash, and the
  endpoint without its leading slash.
\<close>

theorem createApiUrl_one_slash:
  assumes "base \<noteq> []" and "last base \<noteq> CHR ''/''" and "\<not> startsWith endpoint ''//''"
  shows "createApiUrl (Some base) endpoint = spec_join_one_slash base endpoint
         \<and> createApiUrl (Some base) endpoint = base @ ''/'' @ dropWhile is_slash endpoint"
proof -
  have b: "rev (dropWhile is_slash (rev base)) = base"
    using assms(1,2) by (rule dropWhile_slash_base)
  have e: "(case endpoint of [] \<Rightarrow> [] | c # cs \<Rightarrow> if c = CHR ''/'' then cs else c # cs)
             = dropWhile is_slash endpoint"
  proof (cases endpoint)
    case Nil
    then show ?thesis by simp
  next
    case (Cons c cs)
    show ?thesis
    proof (cases "c = CHR ''/''")
      case True
      with Cons assms(3) have "cs = [] \<or> hd cs \<noteq> CHR ''/''"
        by (cases cs) (simp_all add: startsWith_def)
      then have "dropWhile is_slash cs = cs"
        by (cases cs) (simp_all add: is_slash_def)
      with Cons True show ?thesis by (simp add: is_slash_def)
    next
      case False
      with Cons show ?thesis by (simp add: is_slash_def)
    qed
  qed
  have g: "getApiBaseUrl (Some base) = base"
    using assms(1) by (simp add: getApiBaseUrl_def)
  show ?thesis
    by (simp add: createApiUrl_unfold spec_join_one_slash_def b e g)
qed

theorem createApiUrl_one_slash_witness:
  "''https://daydream.melbournedev.com'' \<noteq> []
   \<and> last ''https://daydream.melbournedev.com'' \<noteq> CHR ''/''
   \<and> \<not> startsWith ''/v1/dream/new'' ''//''
   \<and> createApiUrl (Some ''https://daydream.melbournedev.com'') ''/v1/dream/new''
     = spec_join_one_slash ''https://daydream.melbournedev.com'' ''/v1/dream/new''
   \<and> createApiUrl (Some ''https://daydream.melbournedev.com'') ''/v1/dream/new''
     = ''https://daydream.melbournedev.com/v1/dream/new''"
  using createApiUrl_one_slash [of "''https://daydream.melbournedev.com''" "''/v1/dream/new''"]
  by (simp add: startsWith_def is_slash_def spec_join_one_slash_def)

text \<open>
  Claim C7 as stated fails for a non-empty base that ends in a slash: the slash is doubled.
\<close>

theorem createApiUrl_doubled_slash_counterexample:
  "''http://localhost:8000/'' \<noteq> []
   \<and> createApiUrl (Some ''http://localhost:8000/'') ''v1/dream/list''
       = ''http://localhost:8000//v1/dream/list''
   \<and> createApiUrl (Some ''http://localhost:8000/'') ''v1/dream/list''
       \<noteq> spec_join_one_slash ''http://localhost:8000/'' ''v1/dream/list''"
  by (simp add: createApiUrl_def getApiBaseUrl_def startsWith_def slice_def
      spec_join_one_slash_def is_slash_def)

text \<open>
  Claim C9. The session builds its request URLs with \<open>createApiUrl\<close>, so they follow the
  base-URL setting. The dropdown does not: with the setting at the production address, its
  page request still goes to the literal \<open>http://localhost:8000\<close>, where \<open>createApiUrl\<close> would
  have produced the production URL.
\<close>

theorem dropdown_ignores_base_url:
  "map url (fetched (browser_step (OpenChange True) browser_init))
     = [''http://localhost:8000/v1/dream/list?offset=0&limit=20'']
   \<and> createApiUrl (Some ''https://daydream.melbournedev.com'') ''v1/dream/list?offset=0&limit=20''
     = ''https://daydream.melbournedev.com/v1/dream/list?offset=0&limit=20''
   \<and> sent (mount (Some ''https://daydream.melbournedev.com'') (Some ''d1''))
     = [(GET, ''https://daydream.melbournedev.com/v1/dream/d1'')]
   \<and> sent (mount None (Some ''d1'')) = [(GET, ''http://localhost:8000/v1/dream/d1'')]"
  by (simp add: browser_defs session_defs)

section \<open>Properties of the DreamSession\<close>

text \<open>
  Claim C2. With fewer than two concepts the page carries no ``Keep Dreaming'' button (and
  shows the notice instead), so a click cannot start a continuation: the session, and with
  it the log of requests, stays as it is.
\<close>

theorem continue_unavailable_below_two_concepts:
  assumes "length (concepts (view w)) < 2"
  shows "\<not> canContinue (render (view w))
         \<and> step env ClickContinue w = w
         \<and> (\<forall>n b cs. render (view w) = DreamPage n b cs \<longrightarrow> b = None \<and> n)"
proof -
  have a: "\<not> canContinue (render (view w))"
    using assms by (simp add: canContinue_iff)
  have b: "\<forall>n b cs. render (view w) = DreamPage n b cs \<longrightarrow> b = None \<and> n"
    using assms by (auto simp: render_def split: if_splits)
  from a b show ?thesis by (simp (no_asm_simp)) blast
qed

theorem continue_unavailable_below_two_concepts_witness:
  "length (concepts (view example_seed_only)) < 2
   \<and> render (view example_seed_only)
       = DreamPage True None (concepts (view example_seed_only))
   \<and> step None ClickContinue example_seed_only = example_seed_only"
  using continue_unavailable_below_two_concepts [of example_seed_only None]
  by (simp add: example_seed_only_eq example_dream_def render_def truthy_def)

text \<open>
  Claim C3. A continuation is started by a click on the enabled button and fails when its
  request settles with a network error, a non-success status, an unreadable body or
  \<open>success = false\<close>. Neither the start nor the failure touches the stored concepts or the
  stored dream; afterwards the continuation flag is cleared, nothing of the call is left in
  flight, and the error cell holds a message, shown on the error card unless it is empty.
\<close>

theorem failed_continue_leaves_dream:
  assumes "canContinue (render (view w))" and "continue_fails res"
  shows "let w1 = step env ClickContinue w;
             w2 = step env (ContinueSettles (length (inflight w)) res) w1
         in concepts (view w1) = concepts (view w) \<and> dream (view w1) = dream (view w)
          \<and> concepts (view w2) = concepts (view w) \<and> dream (view w2) = dream (view w)
          \<and> \<not> isContinuing (view w2) \<and> inflight w2 = inflight w
          \<and> (\<exists>m. error (view w2) = Some m \<and> (m \<noteq> [] \<longrightarrow> render (view w2) = ErrorCard m))"
proof -
  obtain err where t: "continueDream_try res = Inl err"
    using assms(2) continueDream_try_fails by blast
  have c: "\<not> isLoading (view w)" "\<not> isContinuing (view w)"
    using assms(1) by (simp_all add: canContinue_iff)
  show ?thesis
  proof (cases "truthy (dreamId (view w))")
    case True
    then show ?thesis
      using assms(1) c t
      by (simp add: Let_def continueDream_def continueDream_settle_def
          finally_continueDream_def render_def truthy_def nth_append)
  next
    case False
    then show ?thesis
      using assms(1) c
      by (simp add: Let_def continueDream_def render_def truthy_def)
  qed
qed

theorem failed_continue_leaves_dream_witness:
  "canContinue (render (view example_loaded))
   \<and> continue_fails server_error
   \<and> concepts (view (step None (ContinueSettles 0 server_error)
                       (step None ClickContinue example_loaded)))
       = get_concepts example_dream
   \<and> render (view (step None (ContinueSettles 0 server_error)
                     (step None ClickContinue example_loaded)))
       = ErrorCard ''Failed to continue dream: Internal Server Error''"
  using failed_continue_leaves_dream [of example_loaded server_error None]
  by (simp add: example_loaded_eq example_dream_def continue_fails_def session_defs)

text \<open>
  Claim C10. When the continuation request settles with a success status and a body whose
  \<open>success\<close> is false, the error cell gets ``Dream continuation was not successful'', no
  request is sent (so the dream is not fetched again), the stored concepts and dream stay
  as they are, and the continuation flag is cleared.
\<close>

theorem unsuccessful_continue_is_failure:
  assumes "i < length (inflight w)" and "snd (inflight w ! i) = AwaitContinue d"
    and "ok response" and "json response = Inr data" and "\<not> success data"
  shows "let w' = step env (ContinueSettles i (Fulfilled response)) w
         in error (view w') = Some ''Dream continuation was not successful''
          \<and> sent w' = sent w
          \<and> inflight w' = remove_nth i (inflight w)
          \<and> concepts (view w') = concepts (view w) \<and> dream (view w') = dream (view w)
          \<and> \<not> isContinuing (view w')
          \<and> (\<not> isLoading (view w) \<longrightarrow>
                render (view w') = ErrorCard ''Dream continuation was not successful'')"
  using assms
  by (simp add: Let_def continueDream_settle_def continueDream_try_def
      finally_continueDream_def message_or_def render_def truthy_def)

theorem unsuccessful_continue_is_failure_witness:
  "error (view (step None
       (ContinueSettles 0 (Fulfilled (Response 200 ''OK'' (Inr \<lparr>success = False\<rparr>))))
       (step None ClickContinue example_loaded)))
     = Some ''Dream continuation was not successful''
   \<and> sent (step None
       (ContinueSettles 0 (Fulfilled (Response 200 ''OK'' (Inr \<lparr>success = False\<rparr>))))
       (step None ClickContinue example_loaded))
     = [(GET, ''http://localhost:8000/v1/dream/d1''),
        (POST, ''http://localhost:8000/v1/dream/d1/continue'')]
   \<and> concepts (view (step None
       (ContinueSettles 0 (Fulfilled (Response 200 ''OK'' (Inr \<lparr>success = False\<rparr>))))
       (step None ClickContinue example_loaded)))
     = get_concepts example_dream"
  using unsuccessful_continue_is_failure [of 0 "step None ClickContinue example_loaded" "''d1''"
      "Response 200 ''OK'' (Inr \<lparr>success = False\<rparr>)" "\<lparr>success = False\<rparr>" None]
  by (simp add: example_loaded_eq example_dream_def session_defs)

text \<open>
  Claim C5. When a load request settles with status 404, the error cell holds ``Dream not
  found'' and the screen shows the NotFound condition. With any other non-success status
  the message is ``Failed to load dream:'' followed by the status text, and with a network
  error it is the error's own message (a browser's text such as ``Failed to fetch'', which
  is neither empty nor the not-found text); both show the TransportFailure condition on
  the error card with its ``Try Again'' button.
\<close>

theorem load_404_is_not_found:
  assumes "i < length (inflight w)" and "snd (inflight w ! i) = AwaitLoad awaited"
  shows "(status response = 404 \<longrightarrow>
            error (view (step env (LoadSettles i (Fulfilled response)) w)) = Some ''Dream not found''
          \<and> surfaced (view (step env (LoadSettles i (Fulfilled response)) w)) = Some NotFound)
       \<and> (\<not> ok response \<and> status response \<noteq> 404 \<longrightarrow>
            error (view (step env (LoadSettles i (Fulfilled response)) w))
              = Some (''Failed to load dream: '' @ statusText response)
          \<and> surfaced (view (step env (LoadSettles i (Fulfilled response)) w)) = Some TransportFailure
          \<and> hasTryAgain (render (view (step env (LoadSettles i (Fulfilled response)) w))))
       \<and> error (view (step env (LoadSettles i (Rejected err)) w))
           = Some (message_or err ''Failed to load dream'')
       \<and> (message_or err ''Failed to load dream'' \<notin> {[], ''Dream not found''} \<longrightarrow>
            surfaced (view (step env (LoadSettles i (Rejected err)) w)) = Some TransportFailure
          \<and> hasTryAgain (render (view (step env (LoadSettles i (Rejected err)) w))))"
proof -
  have nf: "status response = 404 \<Longrightarrow>
            loadDream_try (Fulfilled response) = Inl (Error ''Dream not found'')"
    by (simp add: loadDream_try_def ok_def)
  have tf: "\<not> ok response \<Longrightarrow> status response \<noteq> 404 \<Longrightarrow>
            loadDream_try (Fulfilled response)
              = Inl (Error (''Failed to load dream: '' @ statusText response))"
    by (simp add: loadDream_try_def)
  have rj: "loadDream_try (Rejected err) = Inl err"
    by (simp add: loadDream_try_def)
  have a: "status response = 404 \<longrightarrow>
            error (view (step env (LoadSettles i (Fulfilled response)) w)) = Some ''Dream not found''
          \<and> surfaced (view (step env (LoadSettles i (Fulfilled response)) w)) = Some NotFound"
    using nf by (simp del: step.simps add: step_LoadSettles_view [OF assms] message_or_def
        surfaced_def render_def truthy_def)
  have b: "\<not> ok response \<and> status response \<noteq> 404 \<longrightarrow>
            error (view (step env (LoadSettles i (Fulfilled response)) w))
              = Some (''Failed to load dream: '' @ statusText response)
          \<and> surfaced (view (step env (LoadSettles i (Fulfilled response)) w)) = Some TransportFailure
          \<and> hasTryAgain (render (view (step env (LoadSettles i (Fulfilled response)) w)))"
    using tf by (simp del: step.simps add: step_LoadSettles_view [OF assms] message_or_def
        surfaced_def render_def truthy_def hasTryAgain_def)
  have c: "error (view (step env (LoadSettles i (Rejected err)) w))
             = Some (message_or err ''Failed to load dream'')
       \<and> (message_or err ''Failed to load dream'' \<notin> {[], ''Dream not found''} \<longrightarrow>
            surfaced (view (step env (LoadSettles i (Rejected err)) w)) = Some TransportFailure
          \<and> hasTryAgain (render (view (step env (LoadSettles i (Rejected err)) w))))"
    using rj by (simp del: step.simps add: step_LoadSettles_view [OF assms] surfaced_def
        render_def truthy_def hasTryAgain_def)
  from a b c show ?thesis by blast
qed

theorem load_404_is_not_found_witness:
  "surfaced (view (step None (LoadSettles 0 dream_missing) (mount None (Some ''nope''))))
     = Some NotFound
   \<and> surfaced (view (step None (LoadSettles 0 server_error) (mount None (Some ''nope''))))
     = Some TransportFailure
   \<and> surfaced (view (step None (LoadSettles 0 (Rejected (Error ''Failed to fetch'')))
                       (mount None (Some ''nope''))))
     = Some TransportFailure"
  using load_404_is_not_found [of 0 "mount None (Some ''nope'')" False
      "Response 404 ''Not Found'' (Inl NotAnError)" None "Error ''Failed to fetch''"]
    load_404_is_not_found [of 0 "mount None (Some ''nope'')" False
      "Response 500 ''Internal Server Error'' (Inl NotAnError)" None "Error ''Failed to fetch''"]
  by (simp add: session_defs)

lemma list_all_remove_nth: "list_all P xs \<Longrightarrow> list_all P (remove_nth i xs)"
  by (auto simp: remove_nth_def list_all_iff dest: in_set_takeD in_set_dropD)

lemma loadDream_inflight:
  "inflight (loadDream env d awaited w) =
     (if truthy d then inflight w @ [(createApiUrl env (''v1/dream/'' @ the d), AwaitLoad awaited)]
      else inflight w)"
  by (simp add: loadDream_def return_to_def finally_continueDream_def Let_def)

lemma ids_present_loadDream: "ids_present w \<Longrightarrow> ids_present (loadDream env d awaited w)"
  by (simp add: ids_present_def loadDream_inflight)

lemma ids_present_continueDream: "ids_present w \<Longrightarrow> ids_present (continueDream env w)"
  by (auto simp: ids_present_def continueDream_def truthy_def Let_def split: option.splits)

lemma ids_present_drop:
  "ids_present w \<Longrightarrow> ids_present (w\<lparr>inflight := remove_nth i (inflight w)\<rparr>)"
  by (simp add: ids_present_def list_all_remove_nth)

lemma loadDream_settle_inflight [simp]: "inflight (loadDream_settle res awaited w) = inflight w"
  by (simp add: loadDream_settle_def return_to_def finally_continueDream_def split: sum.splits)

lemma ids_present_loadDream_settle:
  "ids_present w \<Longrightarrow> ids_present (loadDream_settle res awaited w)"
  by (simp add: ids_present_def)

lemma ids_present_continueDream_settle:
  "ids_present w \<Longrightarrow> ids_present (continueDream_settle env res d w)"
proof (cases "continueDream_try res")
  case (Inl err)
  assume "ids_present w"
  with Inl show ?thesis
    by (simp add: continueDream_settle_def finally_continueDream_def ids_present_def)
next
  case (Inr p)
  assume "ids_present w"
  with Inr show ?thesis
    by (cases p) (simp add: continueDream_settle_def ids_present_loadDream)
qed

lemma ids_present_step: "ids_present w \<Longrightarrow> ids_present (step env e w)"
proof (cases e)
  case (RouteChange d)
  assume p: "ids_present w"
  then have "ids_present (w\<lparr>view := (view w)\<lparr>dreamId := d\<rparr>\<rparr>)"
    by (simp add: ids_present_def)
  with p RouteChange show ?thesis
    by (simp add: useEffect_dreamId_def ids_present_loadDream)
next
  case (LoadSettles i res)
  assume "ids_present w"
  with LoadSettles show ?thesis
    by (simp add: ids_present_loadDream_settle ids_present_drop split: awaiting.splits)
next
  case (ContinueSettles i res)
  assume "ids_present w"
  with ContinueSettles show ?thesis
    by (simp add: ids_present_continueDream_settle ids_present_drop split: awaiting.splits)
qed (simp_all add: ids_present_loadDream ids_present_continueDream)

lemma ids_present_mount: "ids_present (mount env d)"
  by (simp add: mount_def initial_def useEffect_dreamId_def ids_present_def loadDream_inflight)

lemma ids_present_run: "ids_present w \<Longrightarrow> ids_present (run env es w)"
  by (induction es arbitrary: w) (simp_all add: ids_present_step)

lemma loadDream_isLoading:
  "isLoading (view (loadDream env d awaited w)) = (if truthy d then True else False)"
  by (simp add: loadDream_def return_to_def finally_continueDream_def Let_def)

lemma keeps_loading:
  assumes "ids_present w" and "isLoading (view w)" and "\<not> settles_load e"
  shows "isLoading (view (step env e w))"
proof (cases e)
  case ClickContinue
  with assms(2) show ?thesis by (simp add: canContinue_iff)
next
  case ClickTryAgain
  with assms(2) show ?thesis by (simp add: hasTryAgain_def render_def)
next
  case (RouteChange d)
  with assms(2) show ?thesis by (simp add: useEffect_dreamId_def loadDream_isLoading)
next
  case (LoadSettles i res)
  with assms(3) show ?thesis by simp
next
  case (ContinueSettles i res)
  show ?thesis
  proof (cases "i < length (inflight w)")
    case False
    with assms(2) ContinueSettles show ?thesis by simp
  next
    case True
    show ?thesis
    proof (cases "snd (inflight w ! i)")
      case (AwaitLoad awaited)
      with assms(2) True ContinueSettles show ?thesis by simp
    next
      case (AwaitContinue d)
      have "inflight w ! i \<in> set (inflight w)"
        using True by simp
      with assms(1) AwaitContinue have d: "d \<noteq> []"
        by (auto simp: ids_present_def list_all_iff)
      show ?thesis
      proof (cases "continueDream_try res")
        case (Inl err)
        with assms(2) True AwaitContinue ContinueSettles show ?thesis
          by (simp add: continueDream_settle_def finally_continueDream_def)
      next
        case (Inr p)
        with d True AwaitContinue ContinueSettles show ?thesis
          by (cases p) (simp add: continueDream_settle_def loadDream_isLoading truthy_def)
      qed
    qed
  qed
qed

lemma keeps_loading_run:
  "ids_present w \<Longrightarrow> isLoading (view w) \<Longrightarrow> list_all (\<lambda>e. \<not> settles_load e) es \<Longrightarrow>
   isLoading (view (run env es w))"
  by (induction es arbitrary: w) (simp_all add: keeps_loading ids_present_step)

lemma load_succeeds_iff:
  "load_succeeds res \<longleftrightarrow> (\<exists>response data. res = Fulfilled response \<and> ok response \<and> json response = Inr data)"
  by (auto simp: load_succeeds_def split: settled.splits sum.splits)

lemma loadDream_try_success:
  "ok response \<Longrightarrow> json response = Inr data \<Longrightarrow> loadDream_try (Fulfilled response) = Inr data"
  by (simp add: loadDream_try_def)

lemma loadDream_try_failure:
  "\<not> load_succeeds res \<Longrightarrow> \<exists>err. loadDream_try res = Inl err"
  by (auto simp: load_succeeds_def loadDream_try_def split: settled.splits sum.splits)

lemma loadDream_view:
  "truthy d \<Longrightarrow> view (loadDream env d awaited w) = (view w)\<lparr>isLoading := True, error := None\<rparr>"
  by (simp add: loadDream_def Let_def)

text \<open>
  Claim C8, as amended. A load with a dream id sets the loading flag when it starts. In a
  session run from its mount the flag, once set, stays set over every event that is not the
  settling of a load, and right after a load request settles the flag is cleared, in any
  state. When the call's request settles next, a load that succeeds stores the dream and
  the concepts of the response, leaves the error cell empty and shows the dream page; a
  load that fails stores its message in the error cell, leaves the stored dream and
  concepts as they were, and shows the error card unless the message is empty. So exactly
  one of dream and error is populated when no dream was stored before the call.
\<close>

theorem load_flag_and_outcome:
  assumes "truthy d"
  shows "let w1 = loadDream env d awaited w;
             w2 = step env (LoadSettles (length (inflight w)) res) w1
         in isLoading (view w1) \<and> \<not> isLoading (view w2)
          \<and> (\<forall>response data. res = Fulfilled response \<and> ok response \<and> json response = Inr data \<longrightarrow>
                dream (view w2) = Some (get_dream data)
              \<and> concepts (view w2) = get_concepts data
              \<and> error (view w2) = None
              \<and> render (view w2) =
                  DreamPage (length (get_concepts data) < 2)
                    (if 2 \<le> length (get_concepts data)
                     then Some (Button (\<not> awaited \<and> isContinuing (view w))) else None)
                    (get_concepts data))
          \<and> (\<not> load_succeeds res \<longrightarrow>
                dream (view w2) = dream (view w) \<and> concepts (view w2) = concepts (view w)
              \<and> (\<exists>err. loadDream_try res = Inl err
                    \<and> error (view w2) = Some (message_or err ''Failed to load dream'')
                    \<and> (message_or err ''Failed to load dream'' \<noteq> [] \<longrightarrow>
                         render (view w2) = ErrorCard (message_or err ''Failed to load dream''))))
          \<and> (dream (view w) = None \<longrightarrow> (dream (view w2) \<noteq> None) \<noteq> (error (view w2) \<noteq> None))
          \<and> (isLoading (view (run env es0 (mount env d0))) \<and> list_all (\<lambda>e. \<not> settles_load e) es \<longrightarrow>
                isLoading (view (run env es (run env es0 (mount env d0)))))
          \<and> (i < length (inflight w') \<and> snd (inflight w' ! i) = AwaitLoad awaited' \<longrightarrow>
                \<not> isLoading (view (step env (LoadSettles i res') w')))"
proof -
  let ?w1 = "loadDream env d awaited w"
  let ?w2 = "step env (LoadSettles (length (inflight w)) res) ?w1"
  note v1 = loadDream_view [OF assms, of env _ w]
  have f1: "length (inflight w) < length (inflight ?w1)"
    and a1: "snd (inflight ?w1 ! length (inflight w)) = AwaitLoad awaited"
    using assms by (simp_all add: loadDream_def Let_def nth_append)
  note v2 = step_LoadSettles_view [OF f1 a1, of env res]
  have a: "isLoading (view ?w1)"
    by (simp add: v1)
  have b: "\<not> isLoading (view ?w2)"
    by (cases "loadDream_try res") (simp_all del: step.simps add: v2)
  have c: "\<forall>response data. res = Fulfilled response \<and> ok response \<and> json response = Inr data \<longrightarrow>
                dream (view ?w2) = Some (get_dream data)
              \<and> concepts (view ?w2) = get_concepts data
              \<and> error (view ?w2) = None
              \<and> render (view ?w2) =
                  DreamPage (length (get_concepts data) < 2)
                    (if 2 \<le> length (get_concepts data)
                     then Some (Button (\<not> awaited \<and> isContinuing (view w))) else None)
                    (get_concepts data)"
  proof (intro allI impI)
    fix response data
    assume h: "res = Fulfilled response \<and> ok response \<and> json response = Inr data"
    then have t: "loadDream_try res = Inr data"
      by (simp add: loadDream_try_success)
    have "view ?w2 =
        (view w)\<lparr>isLoading := False, error := None, dream := Some (get_dream data),
                  concepts := get_concepts data,
                  isContinuing := (if awaited then False else isContinuing (view w))\<rparr>"
      using v2 t v1 by (simp del: step.simps)
    then show "dream (view ?w2) = Some (get_dream data)
              \<and> concepts (view ?w2) = get_concepts data
              \<and> error (view ?w2) = None
              \<and> render (view ?w2) =
                  DreamPage (length (get_concepts data) < 2)
                    (if 2 \<le> length (get_concepts data)
                     then Some (Button (\<not> awaited \<and> isContinuing (view w))) else None)
                    (get_concepts data)"
      by (simp del: step.simps add: render_def truthy_def)
  qed
  have d: "\<not> load_succeeds res \<longrightarrow>
                dream (view ?w2) = dream (view w) \<and> concepts (view ?w2) = concepts (view w)
              \<and> (\<exists>err. loadDream_try res = Inl err
                    \<and> error (view ?w2) = Some (message_or err ''Failed to load dream'')
                    \<and> (message_or err ''Failed to load dream'' \<noteq> [] \<longrightarrow>
                         render (view ?w2) = ErrorCard (message_or err ''Failed to load dream'')))"
  proof
    assume "\<not> load_succeeds res"
    then obtain err where e: "loadDream_try res = Inl err"
      using loadDream_try_failure by blast
    then show "dream (view ?w2) = dream (view w) \<and> concepts (view ?w2) = concepts (view w)
              \<and> (\<exists>err. loadDream_try res = Inl err
                    \<and> error (view ?w2) = Some (message_or err ''Failed to load dream'')
                    \<and> (message_or err ''Failed to load dream'' \<noteq> [] \<longrightarrow>
                         render (view ?w2) = ErrorCard (message_or err ''Failed to load dream'')))"
      by (simp del: step.simps add: v2 v1 render_def truthy_def)
  qed
  have e: "dream (view w) = None \<longrightarrow> (dream (view ?w2) \<noteq> None) \<noteq> (error (view ?w2) \<noteq> None)"
    by (cases "loadDream_try res") (simp_all del: step.simps add: v2 v1)
  have f: "isLoading (view (run env es0 (mount env d0))) \<and> list_all (\<lambda>e. \<not> settles_load e) es \<longrightarrow>
                isLoading (view (run env es (run env es0 (mount env d0))))"
    using keeps_loading_run [OF ids_present_run [OF ids_present_mount]] by blast
  have g: "i < length (inflight w') \<and> snd (inflight w' ! i) = AwaitLoad awaited' \<longrightarrow>
                \<not> isLoading (view (step env (LoadSettles i res') w'))"
  proof
    assume h: "i < length (inflight w') \<and> snd (inflight w' ! i) = AwaitLoad awaited'"
    then have "view (step env (LoadSettles i res') w') =
       (case loadDream_try res' of
          Inr data \<Rightarrow> (view w')\<lparr>dream := Some (get_dream data), concepts := get_concepts data,
                          isLoading := False,
                          isContinuing := (if awaited' then False else isContinuing (view w'))\<rparr>
        | Inl err \<Rightarrow> (view w')\<lparr>error := Some (message_or err ''Failed to load dream''),
                         isLoading := False,
                         isContinuing := (if awaited' then False else isContinuing (view w'))\<rparr>)"
      by (intro step_LoadSettles_view) simp_all
    then show "\<not> isLoading (view (step env (LoadSettles i res') w'))"
      by (cases "loadDream_try res'") (simp_all del: step.simps)
  qed
  from a b c d e f g show ?thesis
    unfolding Let_def by (intro conjI)
qed


theorem load_flag_and_outcome_witness:
  "truthy (Some ''d1'')
   \<and> dream_found = Fulfilled (Response 200 ''OK'' (Inr example_dream))
   \<and> ok (Response 200 ''OK'' (Inr example_dream))
   \<and> \<not> load_succeeds dream_missing
   \<and> dream (view (initial (Some ''d1''))) = None
   \<and> isLoading (view (mount None (Some ''d1'')))
   \<and> list_all (\<lambda>e. \<not> settles_load e) [ClickContinue, ClickTryAgain]
   \<and> isLoading (view (run None [ClickContinue, ClickTryAgain] (mount None (Some ''d1''))))
   \<and> dream (view (step None (LoadSettles 0 dream_found) (mount None (Some ''d1''))))
       = Some (get_dream example_dream)
   \<and> concepts (view (step None (LoadSettles 0 dream_found) (mount None (Some ''d1''))))
       = get_concepts example_dream
   \<and> render (view (step None (LoadSettles 0 dream_found) (mount None (Some ''d1''))))
       = DreamPage False (Some (Button False)) (get_concepts example_dream)
   \<and> error (view (step None (LoadSettles 0 dream_found) (mount None (Some ''d1'')))) = None
   \<and> dream (view (step None (LoadSettles 0 dream_missing) (mount None (Some ''d1'')))) = None
   \<and> error (view (step None (LoadSettles 0 dream_missing) (mount None (Some ''d1''))))
       = Some ''Dream not found''
   \<and> render (view (step None (LoadSettles 0 dream_missing) (mount None (Some ''d1''))))
       = ErrorCard ''Dream not found''
   \<and> \<not> isLoading (view (step None (LoadSettles 0 dream_missing) (mount None (Some ''d1''))))"
  using load_flag_and_outcome [where d = "Some ''d1''" and env = None and awaited = False
      and w = "initial (Some ''d1'')" and res = dream_found and ?es0.0 = "[]"
      and ?d0.0 = "Some ''d1''" and es = "[ClickContinue, ClickTryAgain]" and i = 0
      and w' = "mount None (Some ''d1'')" and awaited' = False and res' = dream_missing]
    load_flag_and_outcome [where d = "Some ''d1''" and env = None and awaited = False
      and w = "initial (Some ''d1'')" and res = dream_missing and ?es0.0 = "[]"
      and ?d0.0 = "Some ''d1''" and es = "[ClickContinue, ClickTryAgain]" and i = 0
      and w' = "mount None (Some ''d1'')" and awaited' = False and res' = dream_missing]
  by (simp add: load_succeeds_def example_dream_def session_defs)

text \<open>
  Claim C8 as stated fails in two ways. When a dream is already stored (the dream is loaded,
  continued with success, and the reload that follows is answered with status 500), the
  stored dream and the error message are both populated after the load has settled. And
  when the route changes to \<open>d2\<close> while the load of \<open>d1\<close> is pending, the answer for \<open>d1\<close>
  clears the loading flag while the load of \<open>d2\<close> is still in flight.
\<close>

theorem load_outcome_and_flag_counterexample:
  "dream (view (run None reload_fails (mount None (Some ''d1'')))) = Some (get_dream example_dream)
   \<and> error (view (run None reload_fails (mount None (Some ''d1''))))
       = Some ''Failed to load dream: Internal Server Error''
   \<and> \<not> isLoading (view (run None reload_fails (mount None (Some ''d1''))))
   \<and> inflight (run None reload_fails (mount None (Some ''d1''))) = []
   \<and> inflight (run None [RouteChange (Some ''d2''), LoadSettles 0 dream_found]
                  (mount None (Some ''d1'')))
       = [(''http://localhost:8000/v1/dream/d2'', AwaitLoad False)]
   \<and> \<not> isLoading (view (run None [RouteChange (Some ''d2''), LoadSettles 0 dream_found]
                             (mount None (Some ''d1''))))"
  by (simp add: reload_fails_def example_dream_def session_defs)


section \<open>The guards against overlapping requests\<close>

lemma filter_remove_nth:
  "i < length xs \<Longrightarrow>
   length (filter P (remove_nth i xs)) = length (filter P xs) - (if P (xs ! i) then 1 else 0)"
proof -
  assume i: "i < length xs"
  then have "xs = take i xs @ xs ! i # drop (Suc i) xs"
    by (rule id_take_nth_drop)
  then have "filter P xs = filter P (take i xs) @ filter P [xs ! i] @ filter P (drop (Suc i) xs)"
    by (metis append_Cons append_Nil filter_append)
  then show ?thesis
    by (simp add: remove_nth_def)
qed

lemma filter_remove_nth_other:
  "i < length xs \<Longrightarrow> \<not> P (xs ! i) \<Longrightarrow> filter P (remove_nth i xs) = filter P xs"
proof -
  assume i: "i < length xs" and n: "\<not> P (xs ! i)"
  from i have "xs = take i xs @ xs ! i # drop (Suc i) xs"
    by (rule id_take_nth_drop)
  then have "filter P xs = filter P (take i xs) @ filter P [xs ! i] @ filter P (drop (Suc i) xs)"
    by (metis append_Cons append_Nil filter_append)
  with n show ?thesis
    by (simp add: remove_nth_def)
qed

lemma filter_remove_nth_only:
  "i < length xs \<Longrightarrow> P (xs ! i) \<Longrightarrow> length (filter P xs) \<le> 1 \<Longrightarrow> filter P (remove_nth i xs) = []"
  using filter_remove_nth [of i xs P] by simp

lemma guarded_loadDream_False:
  "guarded w \<Longrightarrow> guarded (loadDream env d False w)"
  by (simp add: guarded_def loadDream_def return_to_def continuing_def Let_def)

lemma guarded_loadDream_True:
  "filter continuing (inflight w) = [] \<Longrightarrow> isContinuing (view w) \<Longrightarrow>
   guarded (loadDream env d True w)"
  by (simp add: guarded_def loadDream_def return_to_def finally_continueDream_def
      continuing_def Let_def)

lemma guarded_continueDream:
  "guarded w \<Longrightarrow> \<not> isContinuing (view w) \<Longrightarrow> guarded (continueDream env w)"
  by (auto simp: guarded_def continueDream_def continuing_def Let_def)

lemma guarded_step: "guarded w \<Longrightarrow> guarded (step env e w)"
proof (cases e)
  case ClickContinue
  assume g: "guarded w"
  show ?thesis
  proof (cases "canContinue (render (view w))")
    case True
    then have "\<not> isContinuing (view w)" by (simp add: canContinue_iff)
    with g True ClickContinue show ?thesis by (simp add: guarded_continueDream)
  next
    case False
    with g ClickContinue show ?thesis by simp
  qed
next
  case ClickTryAgain
  assume "guarded w"
  with ClickTryAgain show ?thesis by (simp add: guarded_loadDream_False)
next
  case (RouteChange d)
  assume g: "guarded w"
  have "guarded (w\<lparr>view := (view w)\<lparr>dreamId := d\<rparr>\<rparr>)"
    using g by (simp add: guarded_def)
  then show ?thesis
    using g RouteChange by (simp add: useEffect_dreamId_def guarded_loadDream_False)
next
  case (LoadSettles i res)
  assume g: "guarded w"
  show ?thesis
  proof (cases "i < length (inflight w)")
    case False
    with g LoadSettles show ?thesis by simp
  next
    case i: True
    show ?thesis
    proof (cases "snd (inflight w ! i)")
      case (AwaitContinue d)
      with g i LoadSettles show ?thesis by simp
    next
      case (AwaitLoad awaited)
      show ?thesis
      proof (cases awaited)
        case True
        with AwaitLoad have "continuing (inflight w ! i)" by (simp add: continuing_def)
        with g i have "filter continuing (remove_nth i (inflight w)) = []"
          by (simp add: guarded_def filter_remove_nth_only)
        with i AwaitLoad True LoadSettles show ?thesis
          by (simp add: guarded_def loadDream_settle_def return_to_def finally_continueDream_def
              split: sum.splits)
      next
        case False
        with AwaitLoad have "\<not> continuing (inflight w ! i)" by (simp add: continuing_def)
        with i have "filter continuing (remove_nth i (inflight w)) = filter continuing (inflight w)"
          by (simp add: filter_remove_nth_other)
        with g i AwaitLoad False LoadSettles show ?thesis
          by (simp add: guarded_def loadDream_settle_def return_to_def split: sum.splits)
      qed
    qed
  qed
next
  case (ContinueSettles i res)
  assume g: "guarded w"
  show ?thesis
  proof (cases "i < length (inflight w)")
    case False
    with g ContinueSettles show ?thesis by simp
  next
    case i: True
    show ?thesis
    proof (cases "snd (inflight w ! i)")
      case (AwaitLoad awaited)
      with g i ContinueSettles show ?thesis by simp
    next
      case (AwaitContinue d)
      then have c: "continuing (inflight w ! i)" by (simp add: continuing_def)
      with g i have e: "filter continuing (remove_nth i (inflight w)) = []"
        by (simp add: guarded_def filter_remove_nth_only)
      have "filter continuing (inflight w) \<noteq> []"
        using c i by (metis filter_empty_conv nth_mem)
      with g have k: "isContinuing (view w)" by (simp add: guarded_def)
      show ?thesis
      proof (cases "continueDream_try res")
        case (Inl err)
        with i AwaitContinue ContinueSettles e show ?thesis
          by (simp add: continueDream_settle_def guarded_def finally_continueDream_def)
      next
        case (Inr p)
        have "guarded (loadDream env (Some d) True (w\<lparr>inflight := remove_nth i (inflight w)\<rparr>))"
          using e k by (intro guarded_loadDream_True) simp_all
        with Inr i AwaitContinue ContinueSettles show ?thesis
          by (simp add: continueDream_settle_def split: proceed.splits)
      qed
    qed
  qed
qed

lemma guarded_mount: "guarded (mount env d)"
  by (simp add: mount_def initial_def useEffect_dreamId_def guarded_def loadDream_def
      continuing_def Let_def)

lemma guarded_run: "guarded w \<Longrightarrow> guarded (run env es w)"
  by (induction es arbitrary: w) (simp_all add: guarded_step)

lemma posts_le_continuing:
  "length (filter is_post xs) \<le> length (filter continuing xs)"
proof -
  have "filter is_post xs = filter is_post (filter continuing xs)"
    by (induction xs) (auto simp: is_post_def continuing_def split: awaiting.splits)
  then show ?thesis
    by (metis length_filter_le)
qed

lemma ClickContinue_idem:
  "step env ClickContinue (step env ClickContinue w) = step env ClickContinue w"
proof (cases "canContinue (render (view w))")
  case False
  then show ?thesis by simp
next
  case True
  have "\<not> canContinue (render (view (continueDream env w)))"
    by (simp add: canContinue_iff continueDream_def Let_def truthy_def)
  with True show ?thesis by simp
qed

lemma single_flight_idle: "single_flight b \<Longrightarrow> \<not> loading (dropdown b) \<Longrightarrow> fetching b = []"
  by (auto simp: single_flight_def split: list.splits)

lemma single_flight_length: "single_flight b \<Longrightarrow> length (fetching b) \<le> 1"
  by (auto simp: single_flight_def split: list.splits)

lemma single_flight_fetchDreams:
  "single_flight b \<Longrightarrow> (rst \<longrightarrow> dreams (dropdown b) = []) \<Longrightarrow> single_flight (fetchDreams off rst b)"
  by (cases "loading (dropdown b)")
     (auto simp: fetchDreams_def Let_def single_flight_def dest: single_flight_idle split: list.splits)

lemma single_flight_useEffect_open: "single_flight b \<Longrightarrow> single_flight (useEffect_open b)"
  by (simp add: useEffect_open_def single_flight_fetchDreams)

lemma single_flight_after_render: "single_flight b \<Longrightarrow> single_flight (after_render old b)"
  by (simp add: after_render_def single_flight_useEffect_open)

lemma single_flight_observer: "single_flight b \<Longrightarrow> single_flight (observer_callback x b)"
  by (simp add: observer_callback_def single_flight_fetchDreams)

lemma single_flight_open:
  "single_flight b \<Longrightarrow> single_flight (b\<lparr>dropdown := (dropdown b)\<lparr>isDropdownOpen := v\<rparr>\<rparr>)"
  by (simp add: single_flight_def split: list.splits)

lemma single_flight_settle:
  "single_flight b \<Longrightarrow> i < length (fetching b) \<Longrightarrow>
   single_flight (fetchDreams_settle res rst (b\<lparr>fetching := remove_nth i (fetching b)\<rparr>))"
  by (auto simp: single_flight_def fetchDreams_settle_def remove_nth_def
      split: list.splits sum.splits)

lemma single_flight_step: "single_flight b \<Longrightarrow> single_flight (browser_step e b)"
  by (cases e)
     (simp_all add: single_flight_after_render single_flight_observer single_flight_open
        single_flight_settle)

lemma single_flight_init: "single_flight browser_init"
  by (simp add: single_flight_def browser_init_def)

lemma single_flight_run: "single_flight b \<Longrightarrow> single_flight (browser_run es b)"
  by (induction es arbitrary: b) (simp_all add: single_flight_step)

lemma one_request_idle:
  "one_request w \<Longrightarrow> \<not> isLoading (view w) \<Longrightarrow>
   \<not> isContinuing (view w) \<or> truthy (error (view w)) \<Longrightarrow> inflight w = []"
  by (auto simp: one_request_def truthy_def split: list.splits awaiting.splits)

lemma one_request_loadDream:
  "inflight w = [] \<Longrightarrow> one_request (loadDream env d awaited w)"
  by (simp add: one_request_def loadDream_def return_to_def finally_continueDream_def Let_def)

lemma one_request_continueDream:
  "inflight w = [] \<Longrightarrow> one_request (continueDream env w)"
  by (simp add: one_request_def continueDream_def Let_def)

lemma one_request_step:
  assumes "one_request w" and "\<not> is_route e"
  shows "one_request (step env e w)"
proof (cases e)
  case ClickContinue
  show ?thesis
  proof (cases "canContinue (render (view w))")
    case True
    then have "inflight w = []"
      using assms(1) by (intro one_request_idle) (simp_all add: canContinue_iff)
    with True ClickContinue show ?thesis by (simp add: one_request_continueDream)
  next
    case False
    with assms(1) ClickContinue show ?thesis by simp
  qed
next
  case ClickTryAgain
  show ?thesis
  proof (cases "hasTryAgain (render (view w))")
    case True
    then have "\<not> isLoading (view w)" "truthy (error (view w))"
      by (auto simp: hasTryAgain_def render_def split: if_splits)
    then have "inflight w = []"
      using assms(1) by (intro one_request_idle) simp_all
    with True ClickTryAgain show ?thesis by (simp add: one_request_loadDream)
  next
    case False
    with assms(1) ClickTryAgain show ?thesis by simp
  qed
next
  case (RouteChange d)
  with assms(2) show ?thesis by simp
next
  case (LoadSettles i res)
  show ?thesis
  proof (cases "i < length (inflight w)")
    case False
    with assms(1) LoadSettles show ?thesis by simp
  next
    case True
    with assms(1) obtain p where p: "inflight w = [p]" "i = 0"
      by (auto simp: one_request_def split: list.splits)
    then show ?thesis
      using LoadSettles assms(1)
      by (cases "snd p")
         (simp_all add: remove_nth_def one_request_def loadDream_settle_def return_to_def
            finally_continueDream_def split: sum.splits)
  qed
next
  case (ContinueSettles i res)
  show ?thesis
  proof (cases "i < length (inflight w)")
    case False
    with assms(1) ContinueSettles show ?thesis by simp
  next
    case True
    with assms(1) obtain p where p: "inflight w = [p]" "i = 0"
      by (auto simp: one_request_def split: list.splits)
    show ?thesis
    proof (cases "snd p")
      case (AwaitLoad awaited)
      with p ContinueSettles assms(1) show ?thesis by simp
    next
      case (AwaitContinue d)
      have l: "one_request (loadDream env (Some d) True (w\<lparr>inflight := []\<rparr>))"
        by (rule one_request_loadDream) simp
      have "one_request (continueDream_settle env res d (w\<lparr>inflight := []\<rparr>))"
      proof (cases "continueDream_try res")
        case (Inl err)
        then show ?thesis
          by (simp add: continueDream_settle_def finally_continueDream_def one_request_def)
      next
        case (Inr p)
        with l show ?thesis
          by (cases p) (simp add: continueDream_settle_def)
      qed
      with p AwaitContinue ContinueSettles show ?thesis
        by (simp add: remove_nth_def)
    qed
  qed
qed

lemma one_request_mount: "one_request (mount env d)"
  by (simp add: mount_def initial_def useEffect_dreamId_def one_request_def loadDream_def Let_def)

lemma one_request_run:
  "one_request w \<Longrightarrow> list_all (\<lambda>e. \<not> is_route e) es \<Longrightarrow> one_request (run env es w)"
  by (induction es arbitrary: w) (simp_all add: one_request_step)

lemma one_request_length: "one_request w \<Longrightarrow> length (inflight w) \<le> 1"
  by (auto simp: one_request_def split: list.splits)


lemma loading_blocks_events:
  assumes "loading (dropdown b)"
  shows "browser_step (SentinelIntersects x) b = b"
    and "fetched (browser_step (OpenChange v) b) = fetched b"
    and "fetching (browser_step (OpenChange v) b) = fetching b"
    and "fetched (browser_step (SelectDream s) b) = fetched b"
    and "fetching (browser_step (SelectDream s) b) = fetching b"
  using assms
  by (simp_all add: sentinel_rendered_def after_render_def useEffect_open_def fetchDreams_def)

text \<open>
  Claim C4, as amended. In every state a session reaches from its mount, whatever the clicks,
  route changes and responses, at most one continuation request is in flight, and while a
  continuation runs a click on the button changes nothing; a second click right after a
  first one changes nothing either. As long as the route parameter does not change, at
  most one request of any kind is in flight in a session. In every state a dropdown
  reaches, at most one page request is in flight, and while it is, the sentinel, opening,
  closing and selecting send no request.
\<close>

theorem guards_prevent_overlap:
  "length (filter is_post (inflight (run env es (mount env d)))) \<le> 1
   \<and> (filter continuing (inflight (run env es (mount env d))) \<noteq> [] \<longrightarrow>
        step env ClickContinue (run env es (mount env d)) = run env es (mount env d))
   \<and> step env ClickContinue (step env ClickContinue w) = step env ClickContinue w
   \<and> (list_all (\<lambda>e. \<not> is_route e) es \<longrightarrow> length (inflight (run env es (mount env d))) \<le> 1)
   \<and> length (fetching (browser_run bes browser_init)) \<le> 1
   \<and> (fetching (browser_run bes browser_init) \<noteq> [] \<longrightarrow>
        browser_step (SentinelIntersects x) (browser_run bes browser_init)
          = browser_run bes browser_init
        \<and> fetched (browser_step (OpenChange v) (browser_run bes browser_init))
          = fetched (browser_run bes browser_init)
        \<and> fetched (browser_step (SelectDream s) (browser_run bes browser_init))
          = fetched (browser_run bes browser_init))"
proof -
  have g: "guarded (run env es (mount env d))"
    by (simp add: guarded_run guarded_mount)
  have a: "length (filter is_post (inflight (run env es (mount env d)))) \<le> 1"
    using g posts_le_continuing [of "inflight (run env es (mount env d))"]
    by (simp add: guarded_def)
  have b: "filter continuing (inflight (run env es (mount env d))) \<noteq> [] \<longrightarrow>
        step env ClickContinue (run env es (mount env d)) = run env es (mount env d)"
    using g by (simp add: guarded_def canContinue_iff)
  have r: "list_all (\<lambda>e. \<not> is_route e) es \<longrightarrow> length (inflight (run env es (mount env d))) \<le> 1"
    using one_request_length [OF one_request_run [OF one_request_mount]] by blast
  have s: "single_flight (browser_run bes browser_init)"
    by (simp add: single_flight_run single_flight_init)
  have c: "length (fetching (browser_run bes browser_init)) \<le> 1"
    using s by (rule single_flight_length)
  have l: "fetching (browser_run bes browser_init) \<noteq> [] \<Longrightarrow>
           loading (dropdown (browser_run bes browser_init))"
    using s single_flight_idle by blast
  show ?thesis
    using a b r c l
    by (simp add: ClickContinue_idem loading_blocks_events del: step.simps browser_step.simps)
qed

theorem guards_prevent_overlap_witness:
  "filter continuing (inflight (run None example_continuing (mount None (Some ''d1'')))) \<noteq> []
   \<and> list_all (\<lambda>e. \<not> is_route e) example_continuing
   \<and> inflight (run None example_continuing (mount None (Some ''d1'')))
       = [(''http://localhost:8000/v1/dream/d1/continue'', AwaitContinue ''d1'')]
   \<and> sent (run None (example_continuing @ [ClickContinue]) (mount None (Some ''d1'')))
       = [(GET, ''http://localhost:8000/v1/dream/d1''),
          (POST, ''http://localhost:8000/v1/dream/d1/continue'')]
   \<and> fetching (browser_run [OpenChange True] browser_init) \<noteq> []
   \<and> fetched (browser_step (OpenChange True) (browser_run [OpenChange True, OpenChange False] browser_init))
       = fetched (browser_run [OpenChange True] browser_init)"
  using guards_prevent_overlap [of None example_continuing "Some ''d1''" example_loaded
      "[OpenChange True]" True True "[]"]
  by (simp add: example_continuing_def example_dream_def session_defs continuing_def
      browser_init_def after_render_def deps_changed_def useEffect_open_def fetchDreams_def
      ITEMS_PER_PAGE_def)

text \<open>
  Claim C4 as stated fails for load requests, which no guard covers: a session mounted on
  dream \<open>d1\<close> whose route changes to \<open>d2\<close> and back before any response has three loads in
  flight, two of them the same request.
\<close>

theorem overlapping_loads_counterexample:
  "inflight (run None [RouteChange (Some ''d2''), RouteChange (Some ''d1'')] (mount None (Some ''d1'')))
     = [(''http://localhost:8000/v1/dream/d1'', AwaitLoad False),
        (''http://localhost:8000/v1/dream/d2'', AwaitLoad False),
        (''http://localhost:8000/v1/dream/d1'', AwaitLoad False)]"
  by (simp add: session_defs)

section \<open>Properties of the DreamBrowser\<close>

lemma fetchDreams_dreams [simp]: "dreams (dropdown (fetchDreams off rst b)) = dreams (dropdown b)"
  by (simp add: fetchDreams_def Let_def)

lemma after_render_dreams [simp]: "dreams (dropdown (after_render old b)) = dreams (dropdown b)"
  by (simp add: after_render_def useEffect_open_def)

lemma observer_dreams [simp]: "dreams (dropdown (observer_callback x b)) = dreams (dropdown b)"
  by (simp add: observer_callback_def)

lemma dreams_grow:
  assumes "single_flight b"
  shows "\<exists>ys. dreams (dropdown (browser_step e b)) = dreams (dropdown b) @ ys"
proof (cases e)
  case (PageSettles i res)
  show ?thesis
  proof (cases "i < length (fetching b)")
    case False
    with PageSettles show ?thesis by simp
  next
    case True
    with assms obtain rq where f: "fetching b = [rq]" and i: "i = 0"
      and r: "reset rq \<longrightarrow> dreams (dropdown b) = []"
      by (auto simp: single_flight_def split: list.splits)
    then show ?thesis
      using PageSettles True
      by (cases "fetchDreams_try res") (auto simp: fetchDreams_settle_def)
  qed
qed simp_all

lemma first_page:
  assumes "length stored = 45"
  shows "after_open stored =
      \<lparr>dropdown = \<lparr>dreams = take 20 stored, loading = False, hasMore = True, listError = None,
                   isDropdownOpen = True\<rparr>,
       fetching = [],
       fetched = [PageFetch ''http://localhost:8000/v1/dream/list?offset=0&limit=20'' 0 20 True]\<rparr>"
  using assms by (simp add: after_open_def browser_defs)

lemma second_page:
  assumes "length stored = 45"
  shows "after_first_scroll stored =
      \<lparr>dropdown = \<lparr>dreams = take 40 stored, loading = False, hasMore = True, listError = None,
                   isDropdownOpen = True\<rparr>,
       fetching = [],
       fetched = [PageFetch ''http://localhost:8000/v1/dream/list?offset=0&limit=20'' 0 20 True,
                  PageFetch ''http://localhost:8000/v1/dream/list?offset=20&limit=20'' 20 20 False]\<rparr>"
proof -
  have t: "take 20 stored @ take 20 (drop 20 stored) = take 40 stored"
    using take_add [of 20 20 stored] by simp
  show ?thesis
    using assms t by (simp add: after_first_scroll_def first_page browser_defs)
qed

lemma third_page:
  assumes "length stored = 45"
  shows "after_second_scroll stored =
      \<lparr>dropdown = \<lparr>dreams = stored, loading = False, hasMore = False, listError = None,
                   isDropdownOpen = True\<rparr>,
       fetching = [],
       fetched = [PageFetch ''http://localhost:8000/v1/dream/list?offset=0&limit=20'' 0 20 True,
                  PageFetch ''http://localhost:8000/v1/dream/list?offset=20&limit=20'' 20 20 False,
                  PageFetch ''http://localhost:8000/v1/dream/list?offset=40&limit=20'' 40 20 False]\<rparr>"
proof -
  have t: "take 40 stored @ drop 40 stored = stored"
    by simp
  show ?thesis
    using assms t by (simp add: after_second_scroll_def second_page browser_defs)
qed

lemma example_summaries_ok:
  "length example_summaries = 45" "distinct (map summary_id example_summaries)"
  by (simp add: example_summaries_def) code_simp

text \<open>
  Claim C1. The backend stores 45 dreams with distinct ids. The dropdown is opened for the
  first time and the backend answers; the sentinel is then on the page, comes into view,
  and the backend answers; and once more. Exactly three requests have been sent, at offsets
  0, 20 and 40 with limit 20; \<open>hasMore\<close> was true after the first two answers and is false
  after the third; the accumulated list is the stored list, in its order and without
  duplicates; the terminator is shown and the sentinel can trigger nothing further.
\<close>

theorem three_pages_for_45_dreams:
  assumes "length stored = 45" and "distinct (map summary_id stored)"
  shows "map offset (fetched (after_second_scroll stored)) = [0, 20, 40]
       \<and> map url (fetched (after_second_scroll stored)) = [page_url 0, page_url 20, page_url 40]
       \<and> fetching (after_second_scroll stored) = []
       \<and> sentinel_rendered (dropdown (after_open stored))
       \<and> sentinel_rendered (dropdown (after_first_scroll stored))
       \<and> hasMore (dropdown (after_open stored)) \<and> hasMore (dropdown (after_first_scroll stored))
       \<and> \<not> hasMore (dropdown (after_second_scroll stored))
       \<and> dreams (dropdown (after_second_scroll stored)) = stored
       \<and> distinct (map summary_id (dreams (dropdown (after_second_scroll stored))))
       \<and> all_loaded_rendered (dropdown (after_second_scroll stored))
       \<and> browser_step (SentinelIntersects True) (after_second_scroll stored)
           = after_second_scroll stored"
  using assms
  by (simp add: first_page second_page third_page page_url_def sentinel_rendered_def
      all_loaded_rendered_def)

theorem three_pages_for_45_dreams_witness:
  "length example_summaries = 45 \<and> distinct (map summary_id example_summaries)
   \<and> map offset (fetched (after_second_scroll example_summaries)) = [0, 20, 40]
   \<and> dreams (dropdown (after_second_scroll example_summaries)) = example_summaries
   \<and> \<not> hasMore (dropdown (after_second_scroll example_summaries))"
  using three_pages_for_45_dreams [OF example_summaries_ok] example_summaries_ok
  by simp

text \<open>
  Claim C6. Opening or closing the dropdown while the accumulated list is non-empty sends
  no request. Opening it with an empty list and no request in flight sends exactly one
  request, for offset 0, that replaces the list. Opening and closing never change the
  accumulated list, and in every state the dropdown reaches from its mount an event only
  ever extends the list at its end.
\<close>

theorem reopen_does_not_refetch:
  "(dreams (dropdown b) \<noteq> [] \<longrightarrow>
       fetched (browser_step (OpenChange v) b) = fetched b
     \<and> fetching (browser_step (OpenChange v) b) = fetching b)
   \<and> (dreams (dropdown b) = [] \<and> \<not> loading (dropdown b) \<and> \<not> isDropdownOpen (dropdown b) \<longrightarrow>
       fetched (browser_step (OpenChange True) b) = fetched b @ [PageFetch (page_url 0) 0 20 True]
     \<and> fetching (browser_step (OpenChange True) b) = fetching b @ [PageFetch (page_url 0) 0 20 True])
   \<and> dreams (dropdown (browser_step (OpenChange v) b)) = dreams (dropdown b)
   \<and> (\<exists>ys. dreams (dropdown (browser_step e (browser_run es browser_init)))
             = dreams (dropdown (browser_run es browser_init)) @ ys)"
proof -
  have "single_flight (browser_run es browser_init)"
    by (simp add: single_flight_run single_flight_init)
  then have "\<exists>ys. dreams (dropdown (browser_step e (browser_run es browser_init)))
             = dreams (dropdown (browser_run es browser_init)) @ ys"
    by (rule dreams_grow)
  then show ?thesis
    by (simp add: after_render_def deps_changed_def useEffect_open_def fetchDreams_def
        page_url_def ITEMS_PER_PAGE_def Let_def)
qed

theorem reopen_does_not_refetch_witness:
  "dreams (dropdown (after_open example_summaries)) \<noteq> []
   \<and> fetched (browser_run [OpenChange False, OpenChange True] (after_open example_summaries))
       = [PageFetch (page_url 0) 0 20 True]
   \<and> dreams (dropdown browser_init) = [] \<and> \<not> loading (dropdown browser_init)
   \<and> \<not> isDropdownOpen (dropdown browser_init)
   \<and> fetched (browser_step (OpenChange True) browser_init) = [PageFetch (page_url 0) 0 20 True]"
proof -
  have n: "example_summaries \<noteq> []"
    using example_summaries_ok(1) by auto
  have f: "fetched (after_open example_summaries) = [PageFetch (page_url 0) 0 20 True]"
    "dreams (dropdown (after_open example_summaries)) = take 20 example_summaries"
    by (simp_all add: first_page [OF example_summaries_ok(1)] page_url_def)
  have i: "dreams (dropdown browser_init) = []" "\<not> loading (dropdown browser_init)"
    "\<not> isDropdownOpen (dropdown browser_init)" "fetched browser_init = []"
    by (simp_all add: browser_init_def)
  show ?thesis
    using reopen_does_not_refetch [of "after_open example_summaries" False "OpenChange True" "[]"]
      reopen_does_not_refetch
        [of "browser_step (OpenChange False) (after_open example_summaries)" True
          "OpenChange True" "[]"]
      reopen_does_not_refetch [of browser_init True "OpenChange True" "[]"]
    by (simp add: f n i del: browser_step.simps)
qed

end
